theory Spec2Isabelle
  imports Main "HOL-Library.Word"
begin

section \<open>The OpenRouter backend: \<open>aide/backend/backend_openrouter.py\<close>\<close>

text \<open>
  The module holds one global (\<open>_client\<close>), one set-up function run under funcy's
  \<open>once\<close>, and the adapter \<open>query\<close>. The model below follows \<open>query\<close> statement by
  statement. What the module does to the outside (building the HTTP client, writing to
  the logger, issuing the completion request) is recorded as a trace of events in an
  explicit \<open>world\<close>; what it obtains from the outside (the environment variable, the
  client constructor, the clock, the retry-wrapped completion call, \<open>json.loads\<close>) is
  read from an explicit \<open>env\<close>. Every exception is a value \<open>Inl err\<close>.
\<close>

subsection \<open>Python values\<close>

text \<open>
  A Python \<open>float\<close> is an IEEE 754 binary64; it is kept as its bit pattern, so \<open>0.0\<close> is
  \<open>PFloat 0\<close>. A \<open>dict\<close> with string keys is an association list in insertion order.
\<close>

type_synonym pyfloat = "64 word"

datatype pyval =
    PNone
  | PBool bool
  | PInt int
  | PFloat pyfloat
  | PStr string
  | PList "pyval list"
  | PDict "(string \<times> pyval) list"

type_synonym kwargs = "(string \<times> pyval) list"

text \<open>\<open>d[k] = v\<close> on a dict: an existing key keeps its place, a new key goes last.\<close>

fun setitem :: "string \<Rightarrow> pyval \<Rightarrow> kwargs \<Rightarrow> kwargs" where
  "setitem k v [] = [(k, v)]"
| "setitem k v (p # ps) = (if fst p = k then (k, v) # ps else p # setitem k v ps)"

text \<open>
  funcy: \<open>notnone\<close> is \<open>lambda x: x is not None\<close>; \<open>select_values(pred, coll)\<close> keeps the
  items of \<open>coll\<close> whose value satisfies \<open>pred\<close>, in their order.
\<close>

definition notnone :: "pyval \<Rightarrow> bool" where
  "notnone x = (x \<noteq> PNone)"

definition select_values :: "(pyval \<Rightarrow> bool) \<Rightarrow> kwargs \<Rightarrow> kwargs" where
  "select_values pred coll = [(k, v) \<leftarrow> coll. pred v]"

subsection \<open>Collaborators' data\<close>

text \<open>
  \<open>FunctionSpec\<close> comes from \<open>aide.backend.utils\<close>; \<open>query\<close> reads three attributes of it.
\<close>

record FunctionSpec =
  name :: string
  as_openai_tool_dict :: pyval
  openai_tool_choice_dict :: pyval

text \<open>The part of the completion response that \<open>query\<close> reads.\<close>

record tool_call =
  function_name :: string
  function_arguments :: string

record message =
  content :: pyval
  tool_calls :: "tool_call list option"

record choice =
  message :: message

record usage =
  prompt_tokens :: int
  completion_tokens :: int

record completion =
  choices :: "choice list"
  usage :: "usage option"
  system_fingerprint :: pyval
  model :: pyval
  created :: pyval

subsection \<open>Exceptions\<close>

datatype assertion =
    ToolCallsEmpty message
  | FunctionNameMismatch string string

datatype error =
    AssertionError assertion
  | JSONDecodeError string
  | IndexError
  | AttributeError
  | TypeError
  | Raised string

subsection \<open>The world and the environment\<close>

datatype client = OpenAI (base_url: string) (api_key: "string option") (max_retries: nat)

datatype event =
    ClientInit string "string option" nat
  | LogInfo string
  | LogError string
  | Create client "string list" kwargs

record world =
  client :: "client option"
  once_done :: bool
  trace :: "event list"

text \<open>The module right after import: \<open>_client = None\<close>, the \<open>once\<close> wrapper not yet used.\<close>

definition initial_world :: world where
  "initial_world = \<lparr>client = None, once_done = False, trace = []\<rparr>"

text \<open>
  What one call of \<open>query\<close> obtains from outside the file. \<open>backoff_create\<close> (from
  \<open>aide.backend.utils\<close>) is given the client whose \<open>chat.completions.create\<close> it wraps,
  the retryable exception classes and the keyword arguments; it answers with the
  completion or with the exception it lets through. \<open>time_before\<close> and \<open>time_after\<close>
  are the two readings of \<open>time.time()\<close>, \<open>float_sub\<close> is binary64 subtraction.
\<close>

record env =
  getenv :: "string \<Rightarrow> string option"
  openai_OpenAI :: "string \<Rightarrow> string option \<Rightarrow> nat \<Rightarrow> error + client"
  backoff_create :: "client \<Rightarrow> string list \<Rightarrow> kwargs \<Rightarrow> error + completion"
  json_loads :: "string \<Rightarrow> error + pyval"
  time_before :: pyfloat
  time_after :: pyfloat
  float_sub :: "pyfloat \<Rightarrow> pyfloat \<Rightarrow> pyfloat"

definition logger_info :: "string \<Rightarrow> world \<Rightarrow> world" where
  "logger_info s w = w\<lparr>trace := trace w @ [LogInfo s]\<rparr>"

definition logger_error :: "string \<Rightarrow> world \<Rightarrow> world" where
  "logger_error s w = w\<lparr>trace := trace w @ [LogError s]\<rparr>"

subsection \<open>The module\<close>

definition OPENAI_TIMEOUT_EXCEPTIONS :: "string list" where
  "OPENAI_TIMEOUT_EXCEPTIONS =
     [''RateLimitError'', ''APIConnectionError'', ''APITimeoutError'', ''InternalServerError'']"

text \<open>
  \<open>_setup_openrouter_client\<close> under \<open>@once\<close>: funcy's wrapper marks the call as done
  before it runs the body, so a body that raises is not run again either.
\<close>

definition setup_openrouter_client :: "env \<Rightarrow> world \<Rightarrow> error option \<times> world" where
  "setup_openrouter_client e w =
     (if once_done w then (None, w)
      else
        let key = getenv e ''OPENROUTER_API_KEY'';
            w1 = w\<lparr>once_done := True,
                   trace := trace w @ [ClientInit ''https://openrouter.ai/api/v1'' key 0]\<rparr>
        in case openai_OpenAI e ''https://openrouter.ai/api/v1'' key 0 of
             Inl err \<Rightarrow> (Some err, w1)
           | Inr c \<Rightarrow> (None, w1\<lparr>client := Some c\<rparr>))"

text \<open>Lines 57 to 61: the list comprehension over \<open>[system_message, user_message]\<close>.\<close>

definition messages :: "string option \<Rightarrow> string option \<Rightarrow> pyval list" where
  "messages system_message user_message =
     [PDict [(''role'', PStr ''user''), (''content'', PStr m)].
        Some m \<leftarrow> [system_message, user_message], m \<noteq> '''']"

definition extra_body :: pyval where
  "extra_body =
     PDict [(''provider'',
             PDict [(''order'', PList [PStr ''Fireworks'']),
                    (''ignore'', PList [PStr ''Together'', PStr ''DeepInfra'', PStr ''Hyperbolic''])])]"

type_synonym result = "pyval \<times> pyfloat \<times> int \<times> int \<times> kwargs"

text \<open>
  \<open>query\<close>. A call \<open>f(messages=..., extra_body=..., **filtered_kwargs)\<close> raises TypeError
  when \<open>filtered_kwargs\<close> repeats one of the two explicit keywords; \<open>_client.chat\<close> raises
  AttributeError while \<open>_client\<close> is still None; \<open>choices[0]\<close> raises IndexError on an
  empty list; \<open>completion.usage.prompt_tokens\<close> raises AttributeError when \<open>usage\<close> is None.
\<close>

definition query ::
  "env \<Rightarrow> string option \<Rightarrow> string option \<Rightarrow> FunctionSpec option \<Rightarrow> bool \<Rightarrow> kwargs \<Rightarrow> world
     \<Rightarrow> (error + result) \<times> world" where
  "query e system_message user_message func_spec convert_system_to_user model_kwargs w =
     (case setup_openrouter_client e w of
        (Some err, w1) \<Rightarrow> (Inl err, w1)
      | (None, w1) \<Rightarrow>
     let filtered = select_values notnone model_kwargs;
         filtered_kwargs =
           (case func_spec of
              None \<Rightarrow> filtered
            | Some fs \<Rightarrow>
                setitem ''tool_choice'' (openai_tool_choice_dict fs)
                  (setitem ''tools'' (PList [as_openai_tool_dict fs]) filtered));
         w2 =
           (case func_spec of
              None \<Rightarrow> w1
            | Some fs \<Rightarrow> logger_info (''Using OpenRouter tool calling for '' @ name fs) w1);
         msgs = messages system_message user_message;
         t0 = time_before e
     in
     (case client w2 of
        None \<Rightarrow> (Inl AttributeError, w2)
      | Some cl \<Rightarrow>
     (if ''messages'' \<in> fst ` set filtered_kwargs \<or> ''extra_body'' \<in> fst ` set filtered_kwargs
      then (Inl TypeError, w2)
      else
     let kw = [(''messages'', PList msgs), (''extra_body'', extra_body)] @ filtered_kwargs;
         w3 = w2\<lparr>trace := trace w2 @ [Create cl OPENAI_TIMEOUT_EXCEPTIONS kw]\<rparr>
     in
     (case backoff_create e cl OPENAI_TIMEOUT_EXCEPTIONS kw of
        Inl err \<Rightarrow> (Inl err, w3)
      | Inr completion \<Rightarrow>
     let req_time = float_sub e (time_after e) t0 in
     (case choices completion of
        [] \<Rightarrow> (Inl IndexError, w3)
      | choice # _ \<Rightarrow>
     let parsed =
           (case func_spec of
              None \<Rightarrow> (Inr (content (message choice)), w3)
            | Some fs \<Rightarrow>
                (case tool_calls (message choice) of
                   None \<Rightarrow> (Inl (AssertionError (ToolCallsEmpty (message choice))), w3)
                 | Some [] \<Rightarrow> (Inl (AssertionError (ToolCallsEmpty (message choice))), w3)
                 | Some (tc # _) \<Rightarrow>
                     (if function_name tc \<noteq> name fs
                      then (Inl (AssertionError
                                   (FunctionNameMismatch (name fs) (function_name tc))), w3)
                      else
                        (case json_loads e (function_arguments tc) of
                           Inr v \<Rightarrow>
                             (Inr v,
                              logger_info
                                (''Successfully parsed tool call response for '' @ name fs) w3)
                         | Inl (JSONDecodeError m) \<Rightarrow>
                             (Inl (JSONDecodeError m),
                              logger_error
                                (''Error decoding function arguments: '' @ function_arguments tc)
                                w3)
                         | Inl err \<Rightarrow> (Inl err, w3)))))
     in
     (case parsed of
        (Inl err, w4) \<Rightarrow> (Inl err, w4)
      | (Inr output, w4) \<Rightarrow>
     (case usage completion of
        None \<Rightarrow> (Inl AttributeError, w4)
      | Some u \<Rightarrow>
          let in_tokens = prompt_tokens u;
              out_tokens = completion_tokens u;
              info = [(''system_fingerprint'', system_fingerprint completion),
                      (''model'', model completion),
                      (''created'', created completion)]
          in (Inr (output, req_time, in_tokens, out_tokens, info), w4))))))))"

subsection \<open>The two halves of \<open>query\<close>\<close>

text \<open>
  For the proofs, the keyword arguments that lines 47 to 53 compute and the statements
  after the completion call (lines 76 to 108) are named on their own; \<open>query_unfold\<close>
  below shows that \<open>query\<close> is exactly their composition.
\<close>

definition filtered_kwargs_of :: "FunctionSpec option \<Rightarrow> kwargs \<Rightarrow> kwargs" where
  "filtered_kwargs_of func_spec model_kwargs =
     (case func_spec of
        None \<Rightarrow> select_values notnone model_kwargs
      | Some fs \<Rightarrow>
          setitem ''tool_choice'' (openai_tool_choice_dict fs)
            (setitem ''tools'' (PList [as_openai_tool_dict fs])
               (select_values notnone model_kwargs)))"

definition parse_output ::
  "env \<Rightarrow> FunctionSpec option \<Rightarrow> choice \<Rightarrow> world \<Rightarrow> (error + pyval) \<times> world" where
  "parse_output e func_spec choice w3 =
     (case func_spec of
        None \<Rightarrow> (Inr (content (message choice)), w3)
      | Some fs \<Rightarrow>
          (case tool_calls (message choice) of
             None \<Rightarrow> (Inl (AssertionError (ToolCallsEmpty (message choice))), w3)
           | Some [] \<Rightarrow> (Inl (AssertionError (ToolCallsEmpty (message choice))), w3)
           | Some (tc # _) \<Rightarrow>
               (if function_name tc \<noteq> name fs
                then (Inl (AssertionError
                             (FunctionNameMismatch (name fs) (function_name tc))), w3)
                else
                  (case json_loads e (function_arguments tc) of
                     Inr v \<Rightarrow>
                       (Inr v,
                        logger_info
                          (''Successfully parsed tool call response for '' @ name fs) w3)
                   | Inl (JSONDecodeError m) \<Rightarrow>
                       (Inl (JSONDecodeError m),
                        logger_error
                          (''Error decoding function arguments: '' @ function_arguments tc)
                          w3)
                   | Inl err \<Rightarrow> (Inl err, w3)))))"

definition parse_response ::
  "env \<Rightarrow> FunctionSpec option \<Rightarrow> completion \<Rightarrow> world \<Rightarrow> (error + result) \<times> world" where
  "parse_response e func_spec completion w3 =
     (case choices completion of
        [] \<Rightarrow> (Inl IndexError, w3)
      | choice # _ \<Rightarrow>
          (case parse_output e func_spec choice w3 of
             (Inl err, w4) \<Rightarrow> (Inl err, w4)
           | (Inr output, w4) \<Rightarrow>
               (case usage completion of
                  None \<Rightarrow> (Inl AttributeError, w4)
                | Some u \<Rightarrow>
                    (Inr (output, float_sub e (time_after e) (time_before e),
                          prompt_tokens u, completion_tokens u,
                          [(''system_fingerprint'', system_fingerprint completion),
                           (''model'', model completion),
                           (''created'', created completion)]), w4))))"

subsection \<open>Sequences of calls\<close>

text \<open>
  The events one call adds to the trace, and a process that calls \<open>query\<close> again and
  again, each time with its own arguments and its own answers from outside, whether or
  not the call before raised.
\<close>

definition new_events :: "world \<Rightarrow> world \<Rightarrow> event list" where
  "new_events w w' = drop (length (trace w)) (trace w')"

type_synonym call =
  "env \<times> string option \<times> string option \<times> FunctionSpec option \<times> bool \<times> kwargs"

fun run_queries :: "call list \<Rightarrow> world \<Rightarrow> world" where
  "run_queries [] w = w"
| "run_queries ((e, sm, um, fs, cv, kw) # cs) w = run_queries cs (snd (query e sm um fs cv kw w))"

fun is_ClientInit :: "event \<Rightarrow> bool" where
  "is_ClientInit (ClientInit _ _ _) = True"
| "is_ClientInit _ = False"

fun is_Create :: "event \<Rightarrow> bool" where
  "is_Create (Create _ _ _) = True"
| "is_Create _ = False"

subsection \<open>Stubbed collaborators\<close>

text \<open>
  The stubs of the specification's two examples: a function specification named
  \<open>lookup\<close>, a key in the environment, a constructor that succeeds, a clock that stands
  still, a completion call that answers every request with the given response, and a
  \<open>json.loads\<close> that knows the one document \<open>{"x":1}\<close>.
\<close>

definition lookup_spec :: FunctionSpec where
  "lookup_spec =
     \<lparr>name = ''lookup'',
      as_openai_tool_dict =
        PDict [(''type'', PStr ''function''), (''function'', PDict [(''name'', PStr ''lookup'')])],
      openai_tool_choice_dict =
        PDict [(''type'', PStr ''function''), (''function'', PDict [(''name'', PStr ''lookup'')])]\<rparr>"

definition stub_loads :: "string \<Rightarrow> error + pyval" where
  "stub_loads s =
     (if s = [CHR ''{'', CHR 0x22, CHR ''x'', CHR 0x22, CHR '':'', CHR ''1'', CHR ''}'']
      then Inr (PDict [(''x'', PInt 1)])
      else Inl (JSONDecodeError ''Expecting value''))"

definition stub_env :: "completion \<Rightarrow> env" where
  "stub_env c =
     \<lparr>getenv = (\<lambda>v. if v = ''OPENROUTER_API_KEY'' then Some ''sk-or-test'' else None),
      openai_OpenAI = (\<lambda>url key retries. Inr (OpenAI url key retries)),
      backoff_create = (\<lambda>cl excs kw. Inr c),
      json_loads = stub_loads,
      time_before = 0,
      time_after = 0,
      float_sub = (\<lambda>a b. 0)\<rparr>"

definition stub_client :: client where
  "stub_client = OpenAI ''https://openrouter.ai/api/v1'' (Some ''sk-or-test'') 0"

definition stub_response :: "pyval \<Rightarrow> tool_call list option \<Rightarrow> completion" where
  "stub_response text calls =
     \<lparr>choices = [\<lparr>message = \<lparr>content = text, tool_calls = calls\<rparr>\<rparr>],
      usage = Some \<lparr>prompt_tokens = 3, completion_tokens = 1\<rparr>,
      system_fingerprint = PStr ''fp_1'',
      model = PStr ''stub-model'',
      created = PInt 1700000000\<rparr>"

definition lookup_call :: "string \<Rightarrow> tool_call" where
  "lookup_call args = \<lparr>function_name = ''lookup'', function_arguments = args\<rparr>"

definition x1_json :: string where
  "x1_json = [CHR ''{'', CHR 0x22, CHR ''x'', CHR 0x22, CHR '':'', CHR ''1'', CHR ''}'']"

section \<open>The structure of a call\<close>

lemma query_unfold:
  "query e sm um fs cv kw w =
     (case setup_openrouter_client e w of
        (Some err, w1) \<Rightarrow> (Inl err, w1)
      | (None, w1) \<Rightarrow>
          let fk = filtered_kwargs_of fs kw;
              w2 = (case fs of None \<Rightarrow> w1
                    | Some s \<Rightarrow> logger_info (''Using OpenRouter tool calling for '' @ name s) w1)
          in (case client w2 of
                None \<Rightarrow> (Inl AttributeError, w2)
              | Some cl \<Rightarrow>
                  if ''messages'' \<in> fst ` set fk \<or> ''extra_body'' \<in> fst ` set fk
                  then (Inl TypeError, w2)
                  else
                    let rq = [(''messages'', PList (messages sm um)), (''extra_body'', extra_body)] @ fk;
                        w3 = w2\<lparr>trace := trace w2 @ [Create cl OPENAI_TIMEOUT_EXCEPTIONS rq]\<rparr>
                    in (case backoff_create e cl OPENAI_TIMEOUT_EXCEPTIONS rq of
                          Inl err \<Rightarrow> (Inl err, w3)
                        | Inr c \<Rightarrow> parse_response e fs c w3)))"
  unfolding query_def parse_response_def parse_output_def filtered_kwargs_of_def Let_def
  by (simp split: option.splits prod.splits sum.splits list.splits)

lemma setup_trace:
  assumes "setup_openrouter_client e w = (r, w1)"
  shows "once_done w1 \<and>
         trace w1 = trace w @ (if once_done w then []
                               else [ClientInit ''https://openrouter.ai/api/v1''
                                       (getenv e ''OPENROUTER_API_KEY'') 0])"
  using assms unfolding setup_openrouter_client_def Let_def
  by (auto split: if_splits sum.splits)

lemma parse_output_trace:
  assumes "parse_output e fs ch w3 = (r, w4)"
  shows "once_done w4 = once_done w3 \<and>
         (\<exists>post. trace w4 = trace w3 @ post \<and> (\<forall>x \<in> set post. \<not> is_Create x \<and> \<not> is_ClientInit x))"
  using assms unfolding parse_output_def logger_info_def logger_error_def
  by (auto split: option.splits list.splits if_splits sum.splits error.splits)

lemma parse_response_trace:
  assumes "parse_response e fs c w3 = (r, w4)"
  shows "once_done w4 = once_done w3 \<and>
         (\<exists>post. trace w4 = trace w3 @ post \<and> (\<forall>x \<in> set post. \<not> is_Create x \<and> \<not> is_ClientInit x))"
proof (cases "choices c")
  case Nil
  with assms show ?thesis by (simp add: parse_response_def)
next
  case (Cons ch rest)
  obtain ro w5 where po: "parse_output e fs ch w3 = (ro, w5)" by (cases "parse_output e fs ch w3")
  from assms Cons po have "w4 = w5"
    by (auto simp: parse_response_def split: sum.splits option.splits)
  with parse_output_trace[OF po] show ?thesis by simp
qed

lemma query_issued:
  assumes q: "query e sm um fs cv kw w = (r, w')"
      and ev: "Create cl exs rq \<in> set (new_events w w')"
  shows "exs = OPENAI_TIMEOUT_EXCEPTIONS \<and>
         rq = [(''messages'', PList (messages sm um)), (''extra_body'', extra_body)]
                @ filtered_kwargs_of fs kw \<and>
         ''messages'' \<notin> fst ` set (filtered_kwargs_of fs kw) \<and>
         ''extra_body'' \<notin> fst ` set (filtered_kwargs_of fs kw) \<and>
         (\<exists>w3 pre. trace w3 = trace w @ pre @ [Create cl exs rq] \<and>
            (r, w') = (case backoff_create e cl exs rq of
                         Inl err \<Rightarrow> (Inl err, w3)
                       | Inr c \<Rightarrow> parse_response e fs c w3))"
proof -
  let ?fk = "filtered_kwargs_of fs kw"
  let ?rq = "[(''messages'', PList (messages sm um)), (''extra_body'', extra_body)] @ ?fk"
  obtain rs w1 where s: "setup_openrouter_client e w = (rs, w1)"
    by (cases "setup_openrouter_client e w")
  define ini where "ini = (if once_done w then []
                           else [ClientInit ''https://openrouter.ai/api/v1''
                                   (getenv e ''OPENROUTER_API_KEY'') 0])"
  have t1: "trace w1 = trace w @ ini"
    using setup_trace[OF s] by (simp add: ini_def)
  have ini: "\<forall>x \<in> set ini. \<not> is_Create x"
    by (simp add: ini_def)
  define w2 where "w2 = (case fs of None \<Rightarrow> w1
     | Some s \<Rightarrow> logger_info (''Using OpenRouter tool calling for '' @ name s) w1)"
  obtain pre where t2: "trace w2 = trace w @ pre" and pre: "\<forall>x \<in> set pre. \<not> is_Create x"
    and c2: "client w2 = client w1"
    using t1 ini by (cases fs) (auto simp: w2_def logger_info_def)
  have no: "\<not> (Create cl exs rq \<in> set pre)"
    using pre by auto
  show ?thesis
  proof (cases rs)
    case (Some err)
    with q s have "w' = w1" by (simp add: query_unfold)
    with ev t1 ini show ?thesis by (auto simp: new_events_def)
  next
    case None
    note rs = None
    show ?thesis
    proof (cases "client w2")
      case None
      with q s rs have "w' = w2" by (simp add: query_unfold Let_def w2_def)
      with ev t2 no show ?thesis by (simp add: new_events_def)
    next
      case (Some cl0)
      show ?thesis
      proof (cases "''messages'' \<in> fst ` set ?fk \<or> ''extra_body'' \<in> fst ` set ?fk")
        case True
        with q s rs Some have "w' = w2" by (simp add: query_unfold Let_def w2_def)
        with ev t2 no show ?thesis by (simp add: new_events_def)
      next
        case False
        define w3 where "w3 = w2\<lparr>trace := trace w2 @ [Create cl0 OPENAI_TIMEOUT_EXCEPTIONS ?rq]\<rparr>"
        have t3: "trace w3 = trace w @ pre @ [Create cl0 OPENAI_TIMEOUT_EXCEPTIONS ?rq]"
          by (simp add: w3_def t2)
        have "(case backoff_create e cl0 OPENAI_TIMEOUT_EXCEPTIONS ?rq of
                         Inl err \<Rightarrow> (Inl err, w3)
                       | Inr c \<Rightarrow> parse_response e fs c w3) = (r, w')"
          using q s rs Some False unfolding w3_def w2_def
          by (simp add: query_unfold Let_def split: sum.splits)
        then have res: "(r, w') = (case backoff_create e cl0 OPENAI_TIMEOUT_EXCEPTIONS ?rq of
                         Inl err \<Rightarrow> (Inl err, w3)
                       | Inr c \<Rightarrow> parse_response e fs c w3)"
          by (rule sym)
        have "\<exists>post. trace w' = trace w3 @ post \<and> (\<forall>x \<in> set post. \<not> is_Create x)"
        proof (cases "backoff_create e cl0 OPENAI_TIMEOUT_EXCEPTIONS ?rq")
          case (Inl err)
          with res show ?thesis by simp
        next
          case (Inr c)
          with res have "parse_response e fs c w3 = (r, w')" by simp
          from parse_response_trace[OF this] show ?thesis by blast
        qed
        then obtain post where t4: "trace w' = trace w3 @ post"
          and post: "\<forall>x \<in> set post. \<not> is_Create x" by blast
        have "Create cl exs rq \<in> set (pre @ [Create cl0 OPENAI_TIMEOUT_EXCEPTIONS ?rq] @ post)"
          using ev t4 t3 by (simp add: new_events_def)
        with no post have same: "cl = cl0 \<and> exs = OPENAI_TIMEOUT_EXCEPTIONS \<and> rq = ?rq"
          by auto
        with False t3 res show ?thesis by blast
      qed
    qed
  qed
qed

lemma query_trace:
  assumes q: "query e sm um fs cv kw w = (r, w')"
  shows "once_done w' \<and>
         (\<exists>post. trace w' = trace w @ (if once_done w then []
                               else [ClientInit ''https://openrouter.ai/api/v1''
                                       (getenv e ''OPENROUTER_API_KEY'') 0]) @ post \<and>
                 (\<forall>x \<in> set post. \<not> is_ClientInit x))"
proof -
  obtain rs w1 where s: "setup_openrouter_client e w = (rs, w1)"
    by (cases "setup_openrouter_client e w")
  note st = setup_trace[OF s]
  show ?thesis
    using q s st
    by (auto simp: query_unfold Let_def logger_info_def
             split: option.splits if_splits sum.splits dest!: parse_response_trace)
qed

lemma query_success:
  assumes q: "query e sm um fs cv kw w = (Inr x, w')"
  shows "\<exists>cl c w3.
           Create cl OPENAI_TIMEOUT_EXCEPTIONS
             ([(''messages'', PList (messages sm um)), (''extra_body'', extra_body)]
                @ filtered_kwargs_of fs kw) \<in> set (new_events w w') \<and>
           backoff_create e cl OPENAI_TIMEOUT_EXCEPTIONS
             ([(''messages'', PList (messages sm um)), (''extra_body'', extra_body)]
                @ filtered_kwargs_of fs kw) = Inr c \<and>
           parse_response e fs c w3 = (Inr x, w')"
proof -
  let ?rq = "[(''messages'', PList (messages sm um)), (''extra_body'', extra_body)]
               @ filtered_kwargs_of fs kw"
  obtain rs w1 where s: "setup_openrouter_client e w = (rs, w1)"
    by (cases "setup_openrouter_client e w")
  define w2 where "w2 = (case fs of None \<Rightarrow> w1
     | Some s \<Rightarrow> logger_info (''Using OpenRouter tool calling for '' @ name s) w1)"
  have t2: "\<exists>pre. trace w2 = trace w @ pre"
    using setup_trace[OF s] by (cases fs) (auto simp: w2_def logger_info_def)
  have "\<exists>cl c. backoff_create e cl OPENAI_TIMEOUT_EXCEPTIONS ?rq = Inr c \<and>
          parse_response e fs c (w2\<lparr>trace := trace w2 @ [Create cl OPENAI_TIMEOUT_EXCEPTIONS ?rq]\<rparr>)
            = (Inr x, w')"
    using q s unfolding w2_def
    by (auto simp: query_unfold Let_def split: option.splits if_splits sum.splits)
  then obtain cl c where b: "backoff_create e cl OPENAI_TIMEOUT_EXCEPTIONS ?rq = Inr c"
    and p: "parse_response e fs c (w2\<lparr>trace := trace w2 @ [Create cl OPENAI_TIMEOUT_EXCEPTIONS ?rq]\<rparr>)
              = (Inr x, w')"
    by blast
  from parse_response_trace[OF p] t2 obtain pre post
    where "trace w' = trace w @ pre @ [Create cl OPENAI_TIMEOUT_EXCEPTIONS ?rq] @ post"
    by auto
  then have "Create cl OPENAI_TIMEOUT_EXCEPTIONS ?rq \<in> set (new_events w w')"
    by (simp add: new_events_def)
  with b p show ?thesis by blast
qed

lemma parse_structured:
  assumes "parse_response e (Some fs) c w3 = (r, w')"
      and "choices c = ch # rest"
      and "tool_calls (message ch) = Some (tc # tcs)"
      and "function_name tc = name fs"
      and "json_loads e (function_arguments tc) = Inr v"
  shows "r = (case usage c of
                None \<Rightarrow> Inl AttributeError
              | Some u \<Rightarrow>
                  Inr (v, float_sub e (time_after e) (time_before e),
                       prompt_tokens u, completion_tokens u,
                       [(''system_fingerprint'', system_fingerprint c),
                        (''model'', model c), (''created'', created c)]))"
  using assms unfolding parse_response_def parse_output_def
  by (auto split: option.splits)

lemma parse_text:
  assumes "parse_response e None c w3 = (r, w')"
      and "choices c = ch # rest"
  shows "r = (case usage c of
                None \<Rightarrow> Inl AttributeError
              | Some u \<Rightarrow>
                  Inr (content (message ch), float_sub e (time_after e) (time_before e),
                       prompt_tokens u, completion_tokens u,
                       [(''system_fingerprint'', system_fingerprint c),
                        (''model'', model c), (''created'', created c)]))"
  using assms unfolding parse_response_def parse_output_def
  by (auto split: option.splits)

lemma parse_malformed:
  assumes "parse_response e (Some fs) c w3 = (r, w')"
      and "choices c = ch # rest"
      and "tool_calls (message ch) = Some (tc # tcs)"
      and "function_name tc = name fs"
      and "json_loads e (function_arguments tc) = Inl (JSONDecodeError m)"
  shows "r = Inl (JSONDecodeError m) \<and>
         trace w' = trace w3 @
           [LogError (''Error decoding function arguments: '' @ function_arguments tc)]"
  using assms unfolding parse_response_def parse_output_def logger_error_def
  by auto

lemma parse_success:
  assumes "parse_response e fs c w3 = (Inr (out, t, i, n, info), w')"
  shows "\<exists>u. usage c = Some u \<and> i = prompt_tokens u \<and> n = completion_tokens u \<and>
             info = [(''system_fingerprint'', system_fingerprint c),
                     (''model'', model c), (''created'', created c)]"
  using assms unfolding parse_response_def
  by (auto split: list.splits prod.splits sum.splits option.splits)

lemma set_select_values:
  "set (select_values notnone kw) = {(k, v). (k, v) \<in> set kw \<and> v \<noteq> PNone}"
  by (auto simp: select_values_def notnone_def)

lemma set_setitem_other:
  "k \<noteq> k' \<Longrightarrow> (k, v) \<in> set (setitem k' v' xs) \<longleftrightarrow> (k, v) \<in> set xs"
  by (induction xs) auto

lemma set_filtered_kwargs_of:
  assumes "fs \<noteq> None \<longrightarrow> k \<noteq> ''tools'' \<and> k \<noteq> ''tool_choice''"
  shows "(k, v) \<in> set (filtered_kwargs_of fs kw) \<longleftrightarrow> (k, v) \<in> set kw \<and> v \<noteq> PNone"
  using assms
  by (cases fs) (simp_all add: filtered_kwargs_of_def set_setitem_other set_select_values)

lemma run_queries_inits:
  "length (filter is_ClientInit (trace (run_queries cs w)))
     = length (filter is_ClientInit (trace w)) + (if once_done w \<or> cs = [] then 0 else 1)"
proof (induction cs arbitrary: w)
  case Nil
  show ?case by simp
next
  case (Cons c cs)
  obtain e sm um fs cv kw where c: "c = (e, sm, um, fs, cv, kw)" by (cases c) auto
  obtain r w' where q: "query e sm um fs cv kw w = (r, w')" by (cases "query e sm um fs cv kw w")
  from query_trace[OF q] obtain post where d: "once_done w'"
    and t: "trace w' = trace w @ (if once_done w then []
                               else [ClientInit ''https://openrouter.ai/api/v1''
                                       (getenv e ''OPENROUTER_API_KEY'') 0]) @ post"
    and p: "\<forall>x \<in> set post. \<not> is_ClientInit x" by blast
  from p have "filter is_ClientInit post = []" by (simp add: filter_empty_conv)
  with t have "length (filter is_ClientInit (trace w'))
     = length (filter is_ClientInit (trace w)) + (if once_done w then 0 else 1)" by simp
  with Cons.IH[of w'] d c q show ?case by simp
qed

lemma parse_contract:
  assumes "parse_response e (Some fs) c w3 = (r, w')"
      and "choices c = ch # rest"
      and "tool_calls (message ch) = None \<or> tool_calls (message ch) = Some [] \<or>
           (\<exists>tc tcs. tool_calls (message ch) = Some (tc # tcs) \<and> function_name tc \<noteq> name fs)"
  shows "\<exists>a. r = Inl (AssertionError a)"
  using assms unfolding parse_response_def parse_output_def
  by (auto split: option.splits list.splits)

text \<open>The definitions that a run on the stubs unfolds.\<close>

lemmas run_defs =
  query_def setup_openrouter_client_def select_values_def notnone_def messages_def
  logger_info_def logger_error_def new_events_def initial_world_def Let_def
  stub_env_def stub_response_def stub_loads_def lookup_spec_def lookup_call_def x1_json_def
  stub_client_def filtered_kwargs_of_def

section \<open>Properties of \<open>query\<close>\<close>

text \<open>
  In the statements below, the response of a call is the completion that \<open>backoff_create\<close>
  returned for the request the call issued: the call added \<open>Create cl exs rq\<close> to the
  trace and \<open>backoff_create e cl exs rq = Inr c\<close>.
\<close>

text \<open>
  C1. With a function specification, a response whose first choice has no tool calls
  (none at all or an empty list), or whose first tool call names another function than
  \<open>func_spec.name\<close>, makes \<open>query\<close> raise an AssertionError instead of returning a value.
  In particular a response without any tool call of the specification's name makes the
  call fail that way.
\<close>

theorem query_tool_call_contract:
  assumes "query e sm um (Some fs) cv kw w = (r, w')"
      and "Create cl exs rq \<in> set (new_events w w')"
      and "backoff_create e cl exs rq = Inr c"
      and "choices c = ch # rest"
  shows "(tool_calls (message ch) = None \<or> tool_calls (message ch) = Some [] \<or>
           (\<exists>tc tcs. tool_calls (message ch) = Some (tc # tcs) \<and> function_name tc \<noteq> name fs)
          \<longrightarrow> (\<exists>a. r = Inl (AssertionError a))) \<and>
         (\<not> (\<exists>tcs tc. tool_calls (message ch) = Some tcs \<and> tc \<in> set tcs \<and>
                function_name tc = name fs)
          \<longrightarrow> (\<exists>a. r = Inl (AssertionError a)))"
proof -
  from query_issued[OF assms(1,2)] assms(3) obtain w3
    where p: "parse_response e (Some fs) c w3 = (r, w')" by auto
  have first: "\<exists>a. r = Inl (AssertionError a)"
    if "tool_calls (message ch) = None \<or> tool_calls (message ch) = Some [] \<or>
        (\<exists>tc tcs. tool_calls (message ch) = Some (tc # tcs) \<and> function_name tc \<noteq> name fs)"
    using parse_contract[OF p assms(4) that] .
  have "tool_calls (message ch) = None \<or> tool_calls (message ch) = Some [] \<or>
        (\<exists>tc tcs. tool_calls (message ch) = Some (tc # tcs) \<and> function_name tc \<noteq> name fs)"
    if no: "\<not> (\<exists>tcs tc. tool_calls (message ch) = Some tcs \<and> tc \<in> set tcs \<and>
                 function_name tc = name fs)"
  proof (cases "tool_calls (message ch)")
    case None
    then show ?thesis by simp
  next
    case (Some tcs)
    with no show ?thesis by (cases tcs) auto
  qed
  with first show ?thesis by blast
qed

theorem query_tool_call_contract_witness:
  "Create stub_client OPENAI_TIMEOUT_EXCEPTIONS
     ([(''messages'', PList (messages None (Some ''hi''))), (''extra_body'', extra_body)]
        @ filtered_kwargs_of (Some lookup_spec) [])
     \<in> set (new_events initial_world
            (snd (query (stub_env (stub_response PNone (Some []))) None (Some ''hi'')
                    (Some lookup_spec) False [] initial_world))) \<and>
   tool_calls (message (hd (choices (stub_response PNone (Some []))))) = Some [] \<and>
   (\<exists>a. fst (query (stub_env (stub_response PNone (Some []))) None (Some ''hi'')
                (Some lookup_spec) False [] initial_world) = Inl (AssertionError a))"
proof -
  let ?c = "stub_response PNone (Some [])"
  let ?e = "stub_env ?c"
  let ?q = "query ?e None (Some ''hi'') (Some lookup_spec) False [] initial_world"
  let ?rq = "[(''messages'', PList (messages None (Some ''hi''))), (''extra_body'', extra_body)]
               @ filtered_kwargs_of (Some lookup_spec) []"
  have q: "?q = (fst ?q, snd ?q)" by simp
  have ev: "Create stub_client OPENAI_TIMEOUT_EXCEPTIONS ?rq
              \<in> set (new_events initial_world (snd ?q))"
    by (simp add: run_defs)
  have b: "backoff_create ?e stub_client OPENAI_TIMEOUT_EXCEPTIONS ?rq = Inr ?c"
    by (simp add: stub_env_def)
  have ch: "choices ?c = [\<lparr>message = \<lparr>content = PNone, tool_calls = Some []\<rparr>\<rparr>]"
    by (simp add: stub_response_def)
  have tc: "tool_calls (message (hd (choices ?c))) = Some []"
    by (simp add: stub_response_def)
  from query_tool_call_contract[OF q ev b ch]
  have "\<exists>a. fst ?q = Inl (AssertionError a)" by simp
  with ev tc show ?thesis by blast
qed

text \<open>
  C2. The message list has one user-role entry for each of system_message and
  user_message that is neither None nor the empty string, the system-derived entry first;
  every entry has role user; two empty or absent inputs give the empty list; and this
  list is what every request of the call carries as \<open>messages\<close>.
\<close>

theorem messages_user_roles_in_order:
  "messages sm um =
     (case sm of None \<Rightarrow> []
      | Some s \<Rightarrow> if s = '''' then []
                  else [PDict [(''role'', PStr ''user''), (''content'', PStr s)]]) @
     (case um of None \<Rightarrow> []
      | Some u \<Rightarrow> if u = '''' then []
                  else [PDict [(''role'', PStr ''user''), (''content'', PStr u)]]) \<and>
   (\<forall>x \<in> set (messages sm um). \<exists>t. x = PDict [(''role'', PStr ''user''), (''content'', PStr t)]) \<and>
   ((sm = None \<or> sm = Some '''') \<and> (um = None \<or> um = Some '''') \<longrightarrow> messages sm um = []) \<and>
   (\<forall>cl exs rq. Create cl exs rq \<in> set (new_events w (snd (query e sm um fs cv kw w)))
       \<longrightarrow> (\<exists>rest. rq = (''messages'', PList (messages sm um)) # rest))"
proof -
  have shape: "messages sm um =
     (case sm of None \<Rightarrow> []
      | Some s \<Rightarrow> if s = '''' then []
                  else [PDict [(''role'', PStr ''user''), (''content'', PStr s)]]) @
     (case um of None \<Rightarrow> []
      | Some u \<Rightarrow> if u = '''' then []
                  else [PDict [(''role'', PStr ''user''), (''content'', PStr u)]])"
    by (cases sm; cases um) (simp_all add: messages_def)
  have roles: "\<forall>x \<in> set (messages sm um).
                 \<exists>t. x = PDict [(''role'', PStr ''user''), (''content'', PStr t)]"
    by (cases sm; cases um) (auto simp: messages_def)
  have empty: "(sm = None \<or> sm = Some '''') \<and> (um = None \<or> um = Some '''')
                 \<longrightarrow> messages sm um = []"
    by (auto simp: messages_def)
  have sent: "\<exists>rest. rq = (''messages'', PList (messages sm um)) # rest"
    if "Create cl exs rq \<in> set (new_events w (snd (query e sm um fs cv kw w)))" for cl exs rq
  proof -
    have "query e sm um fs cv kw w
            = (fst (query e sm um fs cv kw w), snd (query e sm um fs cv kw w))" by simp
    from query_issued[OF this that] show ?thesis by simp
  qed
  from shape roles empty sent show ?thesis by blast
qed

theorem messages_user_roles_in_order_witness:
  "messages (Some ''sys'') (Some ''hi'') =
     [PDict [(''role'', PStr ''user''), (''content'', PStr ''sys'')],
      PDict [(''role'', PStr ''user''), (''content'', PStr ''hi'')]] \<and>
   messages None (Some '''') = [] \<and>
   Create stub_client OPENAI_TIMEOUT_EXCEPTIONS
     [(''messages'', PList (messages (Some ''sys'') (Some ''hi''))), (''extra_body'', extra_body)]
     \<in> set (new_events initial_world
            (snd (query (stub_env (stub_response (PStr ''hello'') None)) (Some ''sys'') (Some ''hi'')
                    None False [] initial_world)))"
proof -
  let ?e = "stub_env (stub_response (PStr ''hello'') None)"
  let ?q = "query ?e (Some ''sys'') (Some ''hi'') None False [] initial_world"
  note a = messages_user_roles_in_order[of "Some ''sys''" "Some ''hi''" initial_world ?e None False "[]"]
  note b = messages_user_roles_in_order[of None "Some ''''" initial_world ?e None False "[]"]
  have ev: "Create stub_client OPENAI_TIMEOUT_EXCEPTIONS
     [(''messages'', PList (messages (Some ''sys'') (Some ''hi''))), (''extra_body'', extra_body)]
     \<in> set (new_events initial_world (snd ?q))"
    by (simp add: run_defs)
  from a have 1: "messages (Some ''sys'') (Some ''hi'') =
     [PDict [(''role'', PStr ''user''), (''content'', PStr ''sys'')],
      PDict [(''role'', PStr ''user''), (''content'', PStr ''hi'')]]" by simp
  from b have 2: "messages None (Some '''') = []" by simp
  from 1 2 ev show ?thesis by blast
qed

text \<open>
  C3. With a function specification, when the first tool call of the response carries
  the specification's name and \<open>json.loads\<close> accepts its argument string, every value
  that \<open>query\<close> returns has the parsed value as its output, and \<open>query\<close> does return it
  whenever the response carries usage data.
\<close>

theorem query_structured_output:
  assumes "query e sm um (Some fs) cv kw w = (r, w')"
      and "Create cl exs rq \<in> set (new_events w w')"
      and "backoff_create e cl exs rq = Inr c"
      and "choices c = ch # rest"
      and "tool_calls (message ch) = Some (tc # tcs)"
      and "function_name tc = name fs"
      and "json_loads e (function_arguments tc) = Inr v"
  shows "(\<forall>x. r = Inr x \<longrightarrow> fst x = v) \<and>
         (\<forall>u. usage c = Some u \<longrightarrow>
              r = Inr (v, float_sub e (time_after e) (time_before e),
                       prompt_tokens u, completion_tokens u,
                       [(''system_fingerprint'', system_fingerprint c),
                        (''model'', model c), (''created'', created c)]))"
proof -
  from query_issued[OF assms(1,2)] assms(3) obtain w3
    where p: "parse_response e (Some fs) c w3 = (r, w')" by auto
  from parse_structured[OF p assms(4-7)] show ?thesis
    by (auto split: option.splits)
qed

theorem query_structured_output_witness:
  "json_loads (stub_env (stub_response PNone (Some [lookup_call x1_json])))
     (function_arguments (lookup_call x1_json)) = Inr (PDict [(''x'', PInt 1)]) \<and>
   fst (query (stub_env (stub_response PNone (Some [lookup_call x1_json]))) None (Some ''hi'')
          (Some lookup_spec) False [] initial_world)
     = Inr (PDict [(''x'', PInt 1)], 0, 3, 1,
            [(''system_fingerprint'', PStr ''fp_1''), (''model'', PStr ''stub-model''),
             (''created'', PInt 1700000000)])"
proof -
  let ?m = "\<lparr>content = PNone, tool_calls = Some [lookup_call x1_json]\<rparr>"
  let ?c = "stub_response PNone (Some [lookup_call x1_json])"
  let ?e = "stub_env ?c"
  let ?q = "query ?e None (Some ''hi'') (Some lookup_spec) False [] initial_world"
  let ?rq = "[(''messages'', PList (messages None (Some ''hi''))), (''extra_body'', extra_body)]
               @ filtered_kwargs_of (Some lookup_spec) []"
  have q: "?q = (fst ?q, snd ?q)" by simp
  have ev: "Create stub_client OPENAI_TIMEOUT_EXCEPTIONS ?rq
              \<in> set (new_events initial_world (snd ?q))"
    by (simp add: run_defs)
  have b: "backoff_create ?e stub_client OPENAI_TIMEOUT_EXCEPTIONS ?rq = Inr ?c"
    by (simp add: stub_env_def)
  have ch: "choices ?c = [\<lparr>message = ?m\<rparr>]"
    by (simp add: stub_response_def)
  have tc: "tool_calls (message \<lparr>message = ?m\<rparr>) = Some [lookup_call x1_json]"
    by simp
  have nm: "function_name (lookup_call x1_json) = name lookup_spec"
    by (simp add: lookup_call_def lookup_spec_def)
  have jl: "json_loads ?e (function_arguments (lookup_call x1_json)) = Inr (PDict [(''x'', PInt 1)])"
    by (simp add: stub_env_def stub_loads_def lookup_call_def x1_json_def)
  have us: "usage ?c = Some \<lparr>prompt_tokens = 3, completion_tokens = 1\<rparr>"
    by (simp add: stub_response_def)
  from query_structured_output[OF q ev b ch tc nm jl] us
  have "fst ?q = Inr (PDict [(''x'', PInt 1)], float_sub ?e (time_after ?e) (time_before ?e),
                      prompt_tokens \<lparr>prompt_tokens = 3, completion_tokens = 1\<rparr>,
                      completion_tokens \<lparr>prompt_tokens = 3, completion_tokens = 1\<rparr>,
                      [(''system_fingerprint'', system_fingerprint ?c),
                       (''model'', model ?c), (''created'', created ?c)])"
    by blast
  then have "fst ?q = Inr (PDict [(''x'', PInt 1)], 0, 3, 1,
            [(''system_fingerprint'', PStr ''fp_1''), (''model'', PStr ''stub-model''),
             (''created'', PInt 1700000000)])"
    by (simp add: stub_env_def stub_response_def)
  with jl show ?thesis by blast
qed

text \<open>
  C4. Without a function specification, every value that \<open>query\<close> returns has as its
  output the \<open>content\<close> of the first choice's message, whatever it is (None included),
  and \<open>query\<close> does return it whenever the response carries usage data.
\<close>

theorem query_text_output:
  assumes "query e sm um None cv kw w = (r, w')"
      and "Create cl exs rq \<in> set (new_events w w')"
      and "backoff_create e cl exs rq = Inr c"
      and "choices c = ch # rest"
  shows "(\<forall>x. r = Inr x \<longrightarrow> fst x = content (message ch)) \<and>
         (\<forall>u. usage c = Some u \<longrightarrow>
              r = Inr (content (message ch), float_sub e (time_after e) (time_before e),
                       prompt_tokens u, completion_tokens u,
                       [(''system_fingerprint'', system_fingerprint c),
                        (''model'', model c), (''created'', created c)]))"
proof -
  from query_issued[OF assms(1,2)] assms(3) obtain w3
    where p: "parse_response e None c w3 = (r, w')" by auto
  from parse_text[OF p assms(4)] show ?thesis
    by (auto split: option.splits)
qed

theorem query_text_output_witness:
  "fst (query (stub_env (stub_response (PStr ''hello'') None)) None (Some ''hi'') None False []
          initial_world)
     = Inr (PStr ''hello'', 0, 3, 1,
            [(''system_fingerprint'', PStr ''fp_1''), (''model'', PStr ''stub-model''),
             (''created'', PInt 1700000000)]) \<and>
   fst (query (stub_env (stub_response PNone None)) None (Some ''hi'') None False []
          initial_world)
     = Inr (PNone, 0, 3, 1,
            [(''system_fingerprint'', PStr ''fp_1''), (''model'', PStr ''stub-model''),
             (''created'', PInt 1700000000)])"
proof -
  have run: "fst (query (stub_env (stub_response reply None)) None (Some ''hi'') None False []
                    initial_world)
     = Inr (reply, 0, 3, 1,
            [(''system_fingerprint'', PStr ''fp_1''), (''model'', PStr ''stub-model''),
             (''created'', PInt 1700000000)])" for reply
  proof -
    let ?m = "\<lparr>content = reply, tool_calls = None\<rparr>"
    let ?c = "stub_response reply None"
    let ?e = "stub_env ?c"
    let ?q = "query ?e None (Some ''hi'') None False [] initial_world"
    let ?rq = "[(''messages'', PList (messages None (Some ''hi''))), (''extra_body'', extra_body)]
                 @ filtered_kwargs_of None []"
    have q: "?q = (fst ?q, snd ?q)" by simp
    have ev: "Create stub_client OPENAI_TIMEOUT_EXCEPTIONS ?rq
                \<in> set (new_events initial_world (snd ?q))"
      by (simp add: run_defs)
    have b: "backoff_create ?e stub_client OPENAI_TIMEOUT_EXCEPTIONS ?rq = Inr ?c"
      by (simp add: stub_env_def)
    have ch: "choices ?c = [\<lparr>message = ?m\<rparr>]"
      by (simp add: stub_response_def)
    have us: "usage ?c = Some \<lparr>prompt_tokens = 3, completion_tokens = 1\<rparr>"
      by (simp add: stub_response_def)
    from query_text_output[OF q ev b ch] us
    have "fst ?q = Inr (content (message \<lparr>message = ?m\<rparr>),
                        float_sub ?e (time_after ?e) (time_before ?e),
                        prompt_tokens \<lparr>prompt_tokens = 3, completion_tokens = 1\<rparr>,
                        completion_tokens \<lparr>prompt_tokens = 3, completion_tokens = 1\<rparr>,
                        [(''system_fingerprint'', system_fingerprint ?c),
                         (''model'', model ?c), (''created'', created ?c)])"
      by blast
    then show ?thesis
      by (simp add: stub_env_def stub_response_def)
  qed
  from run[of "PStr ''hello''"] run[of PNone] show ?thesis by blast
qed

text \<open>
  C5. With a function specification, when the first tool call carries the
  specification's name and \<open>json.loads\<close> raises JSONDecodeError on its argument string,
  \<open>query\<close> raises that same JSONDecodeError, and the last thing it did before was to log
  an error line that ends with the raw argument string.
\<close>

theorem query_malformed_arguments:
  assumes "query e sm um (Some fs) cv kw w = (r, w')"
      and "Create cl exs rq \<in> set (new_events w w')"
      and "backoff_create e cl exs rq = Inr c"
      and "choices c = ch # rest"
      and "tool_calls (message ch) = Some (tc # tcs)"
      and "function_name tc = name fs"
      and "json_loads e (function_arguments tc) = Inl (JSONDecodeError m)"
  shows "r = Inl (JSONDecodeError m) \<and>
         (\<exists>evs. new_events w w' =
                  evs @ [LogError (''Error decoding function arguments: ''
                                     @ function_arguments tc)])"
proof -
  from query_issued[OF assms(1,2)] assms(3) obtain w3 pre
    where t: "trace w3 = trace w @ pre @ [Create cl exs rq]"
      and p: "parse_response e (Some fs) c w3 = (r, w')" by auto
  from parse_malformed[OF p assms(4-7)] t show ?thesis
    by (simp add: new_events_def)
qed

theorem query_malformed_arguments_witness:
  "json_loads (stub_env (stub_response PNone (Some [lookup_call ''{oops'']))) ''{oops''
     = Inl (JSONDecodeError ''Expecting value'') \<and>
   fst (query (stub_env (stub_response PNone (Some [lookup_call ''{oops'']))) None (Some ''hi'')
          (Some lookup_spec) False [] initial_world)
     = Inl (JSONDecodeError ''Expecting value'') \<and>
   last (trace (snd (query (stub_env (stub_response PNone (Some [lookup_call ''{oops''])))
                       None (Some ''hi'') (Some lookup_spec) False [] initial_world)))
     = LogError ''Error decoding function arguments: {oops''"
proof -
  let ?m = "\<lparr>content = PNone, tool_calls = Some [lookup_call ''{oops'']\<rparr>"
  let ?c = "stub_response PNone (Some [lookup_call ''{oops''])"
  let ?e = "stub_env ?c"
  let ?q = "query ?e None (Some ''hi'') (Some lookup_spec) False [] initial_world"
  let ?rq = "[(''messages'', PList (messages None (Some ''hi''))), (''extra_body'', extra_body)]
               @ filtered_kwargs_of (Some lookup_spec) []"
  have q: "?q = (fst ?q, snd ?q)" by simp
  have ev: "Create stub_client OPENAI_TIMEOUT_EXCEPTIONS ?rq
              \<in> set (new_events initial_world (snd ?q))"
    by (simp add: run_defs)
  have b: "backoff_create ?e stub_client OPENAI_TIMEOUT_EXCEPTIONS ?rq = Inr ?c"
    by (simp add: stub_env_def)
  have ch: "choices ?c = [\<lparr>message = ?m\<rparr>]"
    by (simp add: stub_response_def)
  have tc: "tool_calls (message \<lparr>message = ?m\<rparr>) = Some [lookup_call ''{oops'']"
    by simp
  have nm: "function_name (lookup_call ''{oops'') = name lookup_spec"
    by (simp add: lookup_call_def lookup_spec_def)
  have args: "function_arguments (lookup_call ''{oops'') = ''{oops''"
    by (simp add: lookup_call_def)
  have jl0: "json_loads ?e ''{oops'' = Inl (JSONDecodeError ''Expecting value'')"
    by (simp add: stub_env_def stub_loads_def)
  with args have jl: "json_loads ?e (function_arguments (lookup_call ''{oops''))
                        = Inl (JSONDecodeError ''Expecting value'')"
    by simp
  from query_malformed_arguments[OF q ev b ch tc nm jl] obtain evs
    where r: "fst ?q = Inl (JSONDecodeError ''Expecting value'')"
      and t: "new_events initial_world (snd ?q) =
                evs @ [LogError (''Error decoding function arguments: ''
                                   @ function_arguments (lookup_call ''{oops''))]"
    by blast
  from t have "trace (snd ?q) = evs @ [LogError ''Error decoding function arguments: {oops'']"
    by (simp add: new_events_def initial_world_def args)
  then have "last (trace (snd ?q)) = LogError ''Error decoding function arguments: {oops''"
    by simp
  with jl0 r show ?thesis by blast
qed

text \<open>
  C7. A call that returns a value received a response with usage data; the returned
  input and output token counts are that response's \<open>usage.prompt_tokens\<close> and
  \<open>usage.completion_tokens\<close>, and the returned metadata has exactly the keys
  \<open>system_fingerprint\<close>, \<open>model\<close> and \<open>created\<close>, holding the response's fields of
  these names.
\<close>

theorem query_usage_and_info:
  assumes "query e sm um fs cv kw w = (Inr (out, t, i, n, info), w')"
  shows "\<exists>cl exs rq c u.
           Create cl exs rq \<in> set (new_events w w') \<and>
           backoff_create e cl exs rq = Inr c \<and>
           usage c = Some u \<and>
           i = prompt_tokens u \<and>
           n = completion_tokens u \<and>
           map fst info = [''system_fingerprint'', ''model'', ''created''] \<and>
           map_of info ''system_fingerprint'' = Some (system_fingerprint c) \<and>
           map_of info ''model'' = Some (model c) \<and>
           map_of info ''created'' = Some (created c)"
proof -
  from query_success[OF assms] obtain cl c w3
    where ev: "Create cl OPENAI_TIMEOUT_EXCEPTIONS
                 ([(''messages'', PList (messages sm um)), (''extra_body'', extra_body)]
                    @ filtered_kwargs_of fs kw) \<in> set (new_events w w')"
      and b: "backoff_create e cl OPENAI_TIMEOUT_EXCEPTIONS
                ([(''messages'', PList (messages sm um)), (''extra_body'', extra_body)]
                   @ filtered_kwargs_of fs kw) = Inr c"
      and p: "parse_response e fs c w3 = (Inr (out, t, i, n, info), w')"
    by blast
  from parse_success[OF p] obtain u
    where u: "usage c = Some u" "i = prompt_tokens u" "n = completion_tokens u"
      and info: "info = [(''system_fingerprint'', system_fingerprint c),
                         (''model'', model c), (''created'', created c)]"
    by blast
  from info have keys: "map fst info = [''system_fingerprint'', ''model'', ''created'']"
    and v1: "map_of info ''system_fingerprint'' = Some (system_fingerprint c)"
    and v2: "map_of info ''model'' = Some (model c)"
    and v3: "map_of info ''created'' = Some (created c)"
    by simp_all
  show ?thesis
    by (intro exI conjI) (rule ev, rule b, rule u(1), rule u(2), rule u(3), rule keys,
                          rule v1, rule v2, rule v3)
qed

theorem query_usage_and_info_witness:
  "query (stub_env (stub_response (PStr ''hello'') None)) None (Some ''hi'') None False []
     initial_world
     = (Inr (PStr ''hello'', 0, 3, 1,
             [(''system_fingerprint'', PStr ''fp_1''), (''model'', PStr ''stub-model''),
              (''created'', PInt 1700000000)]),
        snd (query (stub_env (stub_response (PStr ''hello'') None)) None (Some ''hi'') None
               False [] initial_world)) \<and>
   (\<exists>u. usage (stub_response (PStr ''hello'') None) = Some u \<and>
        3 = prompt_tokens u \<and> 1 = completion_tokens u)"
proof -
  let ?c = "stub_response (PStr ''hello'') None"
  let ?e = "stub_env ?c"
  let ?q = "query ?e None (Some ''hi'') None False [] initial_world"
  let ?info = "[(''system_fingerprint'', PStr ''fp_1''), (''model'', PStr ''stub-model''),
                (''created'', PInt 1700000000)]"
  have q: "?q = (Inr (PStr ''hello'', 0, 3, 1, ?info), snd ?q)"
    by (simp add: run_defs prod_eq_iff)
  from query_usage_and_info[OF q] obtain cl exs rq c u
    where b: "backoff_create ?e cl exs rq = Inr c"
      and u: "usage c = Some u" "3 = prompt_tokens u" "1 = completion_tokens u"
    by blast
  from b have "c = ?c" by (simp add: stub_env_def)
  with q u show ?thesis by blast
qed

text \<open>
  C8. Starting from the freshly imported module, however many calls of \<open>query\<close> follow
  one another and whatever they are given and answered, the client constructor is
  invoked at most once.
\<close>

theorem client_init_at_most_once:
  "length (filter is_ClientInit (trace (run_queries cs initial_world))) \<le> 1"
  using run_queries_inits[of cs initial_world]
  by (simp add: initial_world_def)

theorem client_init_at_most_once_witness:
  "length (filter is_ClientInit
     (trace (run_queries
        [(stub_env (stub_response (PStr ''hello'') None), None, Some ''hi'', None, False, []),
         (stub_env (stub_response PNone (Some [])), None, Some ''hi'', Some lookup_spec, False, []),
         (stub_env (stub_response (PStr ''bye'') None), Some ''sys'', None, None, True, [])]
        initial_world))) \<le> 1 \<and>
   length (trace (run_queries
        [(stub_env (stub_response (PStr ''hello'') None), None, Some ''hi'', None, False, []),
         (stub_env (stub_response PNone (Some [])), None, Some ''hi'', Some lookup_spec, False, []),
         (stub_env (stub_response (PStr ''bye'') None), Some ''sys'', None, None, True, [])]
        initial_world)) = 5"
proof -
  let ?cs = "[(stub_env (stub_response (PStr ''hello'') None), None, Some ''hi'', None, False, []),
         (stub_env (stub_response PNone (Some [])), None, Some ''hi'', Some lookup_spec, False, []),
         (stub_env (stub_response (PStr ''bye'') None), Some ''sys'', None, None, True, [])]"
  have "length (trace (run_queries ?cs initial_world)) = 5"
    by (simp add: run_defs)
  with client_init_at_most_once[of ?cs] show ?thesis by blast
qed

text \<open>
  C9. \<open>convert_system_to_user\<close> is never read: two calls that differ only in it give the
  same result and leave the same world, and so issue the same request.
\<close>

theorem convert_system_to_user_ignored:
  "query e sm um fs cv kw w = query e sm um fs cv' kw w"
  by (simp add: query_def)

theorem convert_system_to_user_ignored_witness:
  "query (stub_env (stub_response (PStr ''hello'') None)) (Some ''sys'') (Some ''hi'') None True
     [(''temperature'', PFloat 0)] initial_world
   = query (stub_env (stub_response (PStr ''hello'') None)) (Some ''sys'') (Some ''hi'') None False
     [(''temperature'', PFloat 0)] initial_world"
  by (rule convert_system_to_user_ignored)

lemma map_of_setitem_same: "map_of (setitem k v xs) k = Some v"
  by (induction xs) auto

lemma map_of_setitem_other: "k \<noteq> k' \<Longrightarrow> map_of (setitem k' v' xs) k = map_of xs k"
  by (induction xs) auto

lemma map_of_filtered_kwargs_of:
  "map_of (filtered_kwargs_of (Some s) kw) ''tools'' = Some (PList [as_openai_tool_dict s]) \<and>
   map_of (filtered_kwargs_of (Some s) kw) ''tool_choice'' = Some (openai_tool_choice_dict s)"
  by (simp add: filtered_kwargs_of_def map_of_setitem_same map_of_setitem_other)

text \<open>
  C6, as amended. Whenever the call issues a request, its keyword arguments are
  \<open>messages\<close>, \<open>extra_body\<close> and then the forwarded parameters. Without a function
  specification the forwarded parameters are exactly the given ones whose value is not
  None, unchanged and in their order. With a function specification the same holds for
  every name other than \<open>tools\<close> and \<open>tool_choice\<close>, and these two carry the
  specification's tool declaration and tool choice, whatever the caller passed for them.
\<close>

theorem query_forwards_filtered_kwargs:
  assumes "query e sm um fs cv kw w = (r, w')"
      and "Create cl exs rq \<in> set (new_events w w')"
  shows "\<exists>fwd. rq = [(''messages'', PList (messages sm um)), (''extra_body'', extra_body)] @ fwd \<and>
           (fs = None \<longrightarrow> fwd = [(k, v) \<leftarrow> kw. v \<noteq> PNone]) \<and>
           (\<forall>k v. (fs \<noteq> None \<longrightarrow> k \<noteq> ''tools'' \<and> k \<noteq> ''tool_choice'') \<longrightarrow>
                  ((k, v) \<in> set fwd \<longleftrightarrow> (k, v) \<in> set kw \<and> v \<noteq> PNone)) \<and>
           (\<forall>s. fs = Some s \<longrightarrow>
                  map_of fwd ''tools'' = Some (PList [as_openai_tool_dict s]) \<and>
                  map_of fwd ''tool_choice'' = Some (openai_tool_choice_dict s))"
proof -
  let ?fwd = "filtered_kwargs_of fs kw"
  from query_issued[OF assms]
  have rq: "rq = [(''messages'', PList (messages sm um)), (''extra_body'', extra_body)] @ ?fwd"
    by simp
  have none: "fs = None \<longrightarrow> ?fwd = [(k, v) \<leftarrow> kw. v \<noteq> PNone]"
    by (simp add: filtered_kwargs_of_def select_values_def notnone_def)
  have other: "\<forall>k v. (fs \<noteq> None \<longrightarrow> k \<noteq> ''tools'' \<and> k \<noteq> ''tool_choice'') \<longrightarrow>
                  ((k, v) \<in> set ?fwd \<longleftrightarrow> (k, v) \<in> set kw \<and> v \<noteq> PNone)"
  proof (intro allI impI)
    fix k v
    assume "fs \<noteq> None \<longrightarrow> k \<noteq> ''tools'' \<and> k \<noteq> ''tool_choice''"
    then show "(k, v) \<in> set ?fwd \<longleftrightarrow> (k, v) \<in> set kw \<and> v \<noteq> PNone"
      by (rule set_filtered_kwargs_of)
  qed
  have spec: "\<forall>s. fs = Some s \<longrightarrow>
                  map_of ?fwd ''tools'' = Some (PList [as_openai_tool_dict s]) \<and>
                  map_of ?fwd ''tool_choice'' = Some (openai_tool_choice_dict s)"
  proof (intro allI impI)
    fix s
    assume "fs = Some s"
    with map_of_filtered_kwargs_of[of s kw]
    show "map_of ?fwd ''tools'' = Some (PList [as_openai_tool_dict s]) \<and>
          map_of ?fwd ''tool_choice'' = Some (openai_tool_choice_dict s)"
      by simp
  qed
  show ?thesis
  proof (rule exI[of _ ?fwd], intro conjI)
    show "rq = [(''messages'', PList (messages sm um)), (''extra_body'', extra_body)] @ ?fwd"
      by (rule rq)
  qed (rule none, rule other, rule spec)
qed

theorem query_forwards_filtered_kwargs_witness:
  "Create stub_client OPENAI_TIMEOUT_EXCEPTIONS
     [(''messages'', PList (messages None (Some ''hi''))), (''extra_body'', extra_body),
      (''temperature'', PFloat 0), (''model'', PStr ''m'')]
     \<in> set (new_events initial_world
            (snd (query (stub_env (stub_response (PStr ''hello'') None)) None (Some ''hi'') None
                    False [(''temperature'', PFloat 0), (''top_p'', PNone), (''model'', PStr ''m'')]
                    initial_world))) \<and>
   (\<exists>fwd. [(''messages'', PList (messages None (Some ''hi''))), (''extra_body'', extra_body),
            (''temperature'', PFloat 0), (''model'', PStr ''m'')]
            = [(''messages'', PList (messages None (Some ''hi''))), (''extra_body'', extra_body)]
                @ fwd \<and>
          fwd = [(''temperature'', PFloat 0), (''model'', PStr ''m'')])"
proof -
  let ?e = "stub_env (stub_response (PStr ''hello'') None)"
  let ?kw = "[(''temperature'', PFloat 0), (''top_p'', PNone), (''model'', PStr ''m'')]"
  let ?q = "query ?e None (Some ''hi'') None False ?kw initial_world"
  let ?rq = "[(''messages'', PList (messages None (Some ''hi''))), (''extra_body'', extra_body),
              (''temperature'', PFloat 0), (''model'', PStr ''m'')]"
  have q: "?q = (fst ?q, snd ?q)" by simp
  have ev: "Create stub_client OPENAI_TIMEOUT_EXCEPTIONS ?rq
              \<in> set (new_events initial_world (snd ?q))"
    by (simp add: run_defs)
  from query_forwards_filtered_kwargs[OF q ev] obtain fwd
    where 1: "?rq = [(''messages'', PList (messages None (Some ''hi''))),
                     (''extra_body'', extra_body)] @ fwd"
      and 2: "fwd = [(k, v) \<leftarrow> ?kw. v \<noteq> PNone]"
    by blast
  from 2 have "fwd = [(''temperature'', PFloat 0), (''model'', PStr ''m'')]" by simp
  with ev 1 show ?thesis by blast
qed

theorem query_forwards_all_kwargs_counterexample:
  "(''tools'', PStr ''auto'') \<in> set [(''temperature'', PFloat 0), (''tools'', PStr ''auto'')] \<and>
   PStr ''auto'' \<noteq> PNone \<and>
   new_events initial_world
     (snd (query (stub_env (stub_response PNone (Some [lookup_call x1_json]))) None (Some ''hi'')
             (Some lookup_spec) False [(''temperature'', PFloat 0), (''tools'', PStr ''auto'')]
             initial_world))
     = [ClientInit ''https://openrouter.ai/api/v1'' (Some ''sk-or-test'') 0,
        LogInfo ''Using OpenRouter tool calling for lookup'',
        Create stub_client OPENAI_TIMEOUT_EXCEPTIONS
          [(''messages'', PList [PDict [(''role'', PStr ''user''), (''content'', PStr ''hi'')]]),
           (''extra_body'', extra_body),
           (''temperature'', PFloat 0),
           (''tools'', PList [as_openai_tool_dict lookup_spec]),
           (''tool_choice'', openai_tool_choice_dict lookup_spec)],
        LogInfo ''Successfully parsed tool call response for lookup''] \<and>
   (''tools'', PStr ''auto'') \<notin> set
          [(''messages'', PList [PDict [(''role'', PStr ''user''), (''content'', PStr ''hi'')]]),
           (''extra_body'', extra_body),
           (''temperature'', PFloat 0),
           (''tools'', PList [as_openai_tool_dict lookup_spec]),
           (''tool_choice'', openai_tool_choice_dict lookup_spec)]"
  by (simp add: run_defs extra_body_def)

text \<open>
  C10, as amended. The filter drops a parameter only when its value is None: every
  parameter with another value, the falsy 0, 0.0, empty string and False included, is
  kept by the filter; and whenever the call issues a request, the parameter is among the
  request's keyword arguments unchanged, unless a function specification is given and the
  parameter is named \<open>tools\<close> or \<open>tool_choice\<close>.
\<close>

theorem query_keeps_falsy_kwargs:
  assumes "(k, v) \<in> set kw"
      and "v \<noteq> PNone"
  shows "(k, v) \<in> set (select_values notnone kw) \<and>
         (\<forall>k' v'. (k', v') \<in> set kw \<and> (k', v') \<notin> set (select_values notnone kw)
                    \<longrightarrow> v' = PNone) \<and>
         (\<forall>e sm um fs cv w cl exs rq.
            Create cl exs rq \<in> set (new_events w (snd (query e sm um fs cv kw w))) \<and>
            (fs \<noteq> None \<longrightarrow> k \<noteq> ''tools'' \<and> k \<noteq> ''tool_choice'')
            \<longrightarrow> (k, v) \<in> set rq)"
proof -
  have kept: "(k, v) \<in> set (select_values notnone kw)"
    using assms by (simp add: set_select_values)
  have only: "\<forall>k' v'. (k', v') \<in> set kw \<and> (k', v') \<notin> set (select_values notnone kw)
                    \<longrightarrow> v' = PNone"
    by (simp add: set_select_values)
  have sent: "(k, v) \<in> set rq"
    if ev: "Create cl exs rq \<in> set (new_events w (snd (query e sm um fs cv kw w)))"
      and nm: "fs \<noteq> None \<longrightarrow> k \<noteq> ''tools'' \<and> k \<noteq> ''tool_choice''"
    for e sm um fs cv w cl exs rq
  proof -
    have q: "query e sm um fs cv kw w
               = (fst (query e sm um fs cv kw w), snd (query e sm um fs cv kw w))" by simp
    from query_issued[OF q ev]
    have rq: "rq = [(''messages'', PList (messages sm um)), (''extra_body'', extra_body)]
                     @ filtered_kwargs_of fs kw"
      by simp
    from set_filtered_kwargs_of[OF nm, of v kw] assms
    have "(k, v) \<in> set (filtered_kwargs_of fs kw)" by simp
    with rq show ?thesis by simp
  qed
  show ?thesis
  proof (intro conjI allI impI)
    show "(k, v) \<in> set (select_values notnone kw)" by (rule kept)
  next
    fix k' v'
    assume "(k', v') \<in> set kw \<and> (k', v') \<notin> set (select_values notnone kw)"
    with only show "v' = PNone" by simp
  next
    fix e sm um fs cv w cl exs rq
    assume a: "Create cl exs rq \<in> set (new_events w (snd (query e sm um fs cv kw w))) \<and>
               (fs \<noteq> None \<longrightarrow> k \<noteq> ''tools'' \<and> k \<noteq> ''tool_choice'')"
    from a have ev: "Create cl exs rq \<in> set (new_events w (snd (query e sm um fs cv kw w)))"
      by (rule conjunct1)
    from a have nm: "fs \<noteq> None \<longrightarrow> k \<noteq> ''tools'' \<and> k \<noteq> ''tool_choice''"
      by (rule conjunct2)
    from ev nm show "(k, v) \<in> set rq" by (rule sent)
  qed
qed

theorem query_keeps_falsy_kwargs_witness:
  "(''seed'', PInt 0) \<in> set (select_values notnone
      [(''seed'', PInt 0), (''temperature'', PFloat 0), (''top_p'', PNone), (''user'', PStr []),
       (''logprobs'', PBool False)]) \<and>
   Create stub_client OPENAI_TIMEOUT_EXCEPTIONS
     [(''messages'', PList (messages None (Some ''hi''))), (''extra_body'', extra_body),
      (''seed'', PInt 0), (''temperature'', PFloat 0), (''user'', PStr []),
      (''logprobs'', PBool False)]
     \<in> set (new_events initial_world
            (snd (query (stub_env (stub_response (PStr ''hello'') None)) None (Some ''hi'') None
                    False
                    [(''seed'', PInt 0), (''temperature'', PFloat 0), (''top_p'', PNone),
                     (''user'', PStr []), (''logprobs'', PBool False)]
                    initial_world))) \<and>
   {(''seed'', PInt 0), (''temperature'', PFloat 0), (''user'', PStr []),
    (''logprobs'', PBool False)}
     \<subseteq> set [(''messages'', PList (messages None (Some ''hi''))), (''extra_body'', extra_body),
              (''seed'', PInt 0), (''temperature'', PFloat 0), (''user'', PStr []),
              (''logprobs'', PBool False)]"
proof -
  let ?e = "stub_env (stub_response (PStr ''hello'') None)"
  let ?kw = "[(''seed'', PInt 0), (''temperature'', PFloat 0), (''top_p'', PNone),
              (''user'', PStr []), (''logprobs'', PBool False)]"
  let ?q = "query ?e None (Some ''hi'') None False ?kw initial_world"
  let ?rq = "[(''messages'', PList (messages None (Some ''hi''))), (''extra_body'', extra_body),
              (''seed'', PInt 0), (''temperature'', PFloat 0), (''user'', PStr []),
              (''logprobs'', PBool False)]"
  have ev: "Create stub_client OPENAI_TIMEOUT_EXCEPTIONS ?rq
              \<in> set (new_events initial_world (snd ?q))"
    by (simp add: run_defs)
  have nm: "(None::FunctionSpec option) \<noteq> None \<longrightarrow> x \<noteq> ''tools'' \<and> x \<noteq> ''tool_choice''"
    for x :: string
    by simp
  have m1: "(''seed'', PInt 0) \<in> set ?kw" by simp
  have m2: "(''temperature'', PFloat 0) \<in> set ?kw" by simp
  have m3: "(''user'', PStr []) \<in> set ?kw" by simp
  have m4: "(''logprobs'', PBool False) \<in> set ?kw" by simp
  have n1: "PInt 0 \<noteq> PNone" by simp
  have n2: "PFloat 0 \<noteq> PNone" by simp
  have n3: "PStr [] \<noteq> PNone" by simp
  have n4: "PBool False \<noteq> PNone" by simp
  note t1 = query_keeps_falsy_kwargs[OF m1 n1]
  note t2 = query_keeps_falsy_kwargs[OF m2 n2]
  note t3 = query_keeps_falsy_kwargs[OF m3 n3]
  note t4 = query_keeps_falsy_kwargs[OF m4 n4]
  from t1 have k1: "(''seed'', PInt 0) \<in> set (select_values notnone ?kw)"
    by (rule conjunct1)
  from t1 ev nm have s1: "(''seed'', PInt 0) \<in> set ?rq" by blast
  from t2 ev nm have s2: "(''temperature'', PFloat 0) \<in> set ?rq" by blast
  from t3 ev nm have s3: "(''user'', PStr []) \<in> set ?rq" by blast
  from t4 ev nm have s4: "(''logprobs'', PBool False) \<in> set ?rq" by blast
  from s1 s2 s3 s4
  have sub: "{(''seed'', PInt 0), (''temperature'', PFloat 0), (''user'', PStr []),
              (''logprobs'', PBool False)} \<subseteq> set ?rq"
    by blast
  from k1 ev sub show ?thesis by (intro conjI)
qed

theorem query_keeps_falsy_kwargs_counterexample:
  "(''tool_choice'', PStr []) \<in> set [(''tool_choice'', PStr [])] \<and>
   PStr [] \<noteq> PNone \<and>
   select_values notnone [(''tool_choice'', PStr [])] = [(''tool_choice'', PStr [])] \<and>
   new_events initial_world
     (snd (query (stub_env (stub_response PNone (Some [lookup_call x1_json]))) None (Some ''hi'')
             (Some lookup_spec) False [(''tool_choice'', PStr [])] initial_world))
     = [ClientInit ''https://openrouter.ai/api/v1'' (Some ''sk-or-test'') 0,
        LogInfo ''Using OpenRouter tool calling for lookup'',
        Create stub_client OPENAI_TIMEOUT_EXCEPTIONS
          [(''messages'', PList [PDict [(''role'', PStr ''user''), (''content'', PStr ''hi'')]]),
           (''extra_body'', extra_body),
           (''tool_choice'', openai_tool_choice_dict lookup_spec),
           (''tools'', PList [as_openai_tool_dict lookup_spec])],
        LogInfo ''Successfully parsed tool call response for lookup''] \<and>
   (''tool_choice'', PStr []) \<notin> set
          [(''messages'', PList [PDict [(''role'', PStr ''user''), (''content'', PStr ''hi'')]]),
           (''extra_body'', extra_body),
           (''tool_choice'', openai_tool_choice_dict lookup_spec),
           (''tools'', PList [as_openai_tool_dict lookup_spec])]"
  by (simp add: run_defs extra_body_def)

end
